theory Spec2Isabelle
  imports Complex_Main
begin

section \<open>The commission and goal engine of app.py\<close>

text \<open>
  The business logic of \<^verbatim>\<open>app.py\<close> is the two commission functions (lines 12 to 23)
  and the processing block of the script (lines 75 to 87). Python floats are modelled as
  \<^typ>\<open>real\<close>: every comparison and every formula is the one of the source, and rounding
  is not modelled. The columns of the data frame that the block reads are \<^verbatim>\<open>tipo\<close> and
  \<^verbatim>\<open>valor\<close>; the column \<^verbatim>\<open>data\<close> only feeds the charts.
\<close>

subsection \<open>Values and errors\<close>

text \<open>
  \<^verbatim>\<open>calculate_commission_standard\<close> returns a bare float on one path and a tuple of three
  floats on the other, so its result is a tagged value. Unpacking a float into three
  names raises \<^verbatim>\<open>TypeError\<close>; a float division by zero raises \<^verbatim>\<open>ZeroDivisionError\<close>.
\<close>

datatype error = TypeError | ZeroDivisionError

datatype py_value = PyFloat real | PyTuple3 real real real

definition py_div :: "real \<Rightarrow> real \<Rightarrow> error + real" where
  "py_div a b = (if b = 0 then Inl ZeroDivisionError else Inr (a / b))"

definition unpack3 :: "py_value \<Rightarrow> error + (real \<times> real \<times> real)" where
  "unpack3 v = (case v of PyFloat _ \<Rightarrow> Inl TypeError | PyTuple3 a b c \<Rightarrow> Inr (a, b, c))"

subsection \<open>Business logic (lines 12 to 23)\<close>

definition calculate_commission_standard :: "real \<Rightarrow> real \<Rightarrow> error + py_value" where
  "calculate_commission_standard sales_value target_value =
     (if target_value = 0 then Inr (PyFloat 0.0)
      else case py_div sales_value target_value of
        Inl e \<Rightarrow> Inl e
      | Inr q \<Rightarrow>
          (let achievement = q * 100;
               rate = (if 50 \<le> achievement \<and> achievement < 80 then 0.015
                       else if 80 \<le> achievement \<and> achievement < 100 then 0.02
                       else if 100 \<le> achievement \<and> achievement < 110 then 0.04
                       else if achievement \<ge> 110 then 0.08
                       else 0.0)
           in Inr (PyTuple3 (sales_value * rate) (rate * 100) achievement)))"

definition calculate_commission_waba :: "real \<Rightarrow> real" where
  "calculate_commission_waba sales_value = sales_value * 0.10"

subsection \<open>Processing block (lines 75 to 87)\<close>

record sale =
  tipo :: string
  valor :: real

text \<open>\<^verbatim>\<open>str.lower\<close> on the ASCII letters; every other character is kept.\<close>

definition char_lower :: "char \<Rightarrow> char" where
  "char_lower c =
     (case map_of (zip ''ABCDEFGHIJKLMNOPQRSTUVWXYZ'' ''abcdefghijklmnopqrstuvwxyz'') c of
        Some l \<Rightarrow> l
      | None \<Rightarrow> c)"

definition str_lower :: "string \<Rightarrow> string" where
  "str_lower s = map char_lower s"

text \<open>
  Lines 77 to 79: \<^verbatim>\<open>df[df['tipo'].astype(str).str.lower() == name]['valor'].sum()\<close>. The
  sum of an empty selection is 0.
\<close>

definition val_of :: "string \<Rightarrow> sale list \<Rightarrow> real" where
  "val_of name df = sum_list (map valor (filter (\<lambda>r. str_lower (tipo r) = name) df))"

record revenue =
  val_standard :: real
  val_waba :: real
  val_trial :: real
  total_revenue :: real
  progress_percent :: real

record commission =
  comm_standard :: real
  rate_standard :: real
  achievement :: real
  comm_waba :: real
  total_commission :: real

text \<open>Lines 77 to 82: the three totals, the total revenue and the progress of the goal.\<close>

definition revenue_block :: "sale list \<Rightarrow> real \<Rightarrow> revenue" where
  "revenue_block df target_value =
     (let vs = val_of ''standard'' df;
          vw = val_of ''waba'' df;
          vt = val_of ''trial'' df;
          tr = vs + vw + vt
      in \<lparr> val_standard = vs, val_waba = vw, val_trial = vt, total_revenue = tr,
           progress_percent = (if target_value > 0 then (tr / target_value) * 100 else 0) \<rparr>)"

text \<open>Lines 85 to 87: the two commissions and their sum.\<close>

definition commission_block :: "real \<Rightarrow> real \<Rightarrow> real \<Rightarrow> error + commission" where
  "commission_block vs vw target_value =
     (case calculate_commission_standard vs target_value of
        Inl e \<Rightarrow> Inl e
      | Inr v \<Rightarrow>
          (case unpack3 v of
             Inl e \<Rightarrow> Inl e
           | Inr (cs, rs, ach) \<Rightarrow>
               (let cw = calculate_commission_waba vw
                in Inr \<lparr> comm_standard = cs, rate_standard = rs, achievement = ach,
                         comm_waba = cw, total_commission = cs + cw \<rparr>)))"

text \<open>
  Lines 75 to 87 as a whole. An empty data frame computes nothing (the script shows a
  warning instead), which is the result \<open>None\<close>; an exception ends the run.
\<close>

definition processing :: "sale list \<Rightarrow> real \<Rightarrow> error + (revenue \<times> commission) option" where
  "processing df target_value =
     (if df = [] then Inr None
      else (let rv = revenue_block df target_value
            in case commission_block (val_standard rv) (val_waba rv) target_value of
                 Inl e \<Rightarrow> Inl e
               | Inr c \<Rightarrow> Inr (Some (rv, c))))"

text \<open>Lines 66 to 71: the data shown when no spreadsheet is uploaded.\<close>

definition mock_data :: "sale list" where
  "mock_data =
     [\<lparr>tipo = ''Standard'', valor = 5000\<rparr>, \<lparr>tipo = ''Standard'', valor = 12000\<rparr>,
      \<lparr>tipo = ''WABA'', valor = 3000\<rparr>, \<lparr>tipo = ''Trial'', valor = 1000\<rparr>,
      \<lparr>tipo = ''Standard'', valor = 8000\<rparr>, \<lparr>tipo = ''WABA'', valor = 5000\<rparr>]"

subsection \<open>The tier table as the specification words it\<close>

text \<open>
  The bands of the specification, in percent: below 50 the rate is 0, then
  \<open>[50,80)\<close> gives 1.5, \<open>[80,100)\<close> gives 2.0, \<open>[100,110)\<close> gives 4.0 and
  \<open>[110,\<infinity>)\<close> gives 8.0. The source's chain of comparisons is compared with it below.
\<close>

definition tier_percent_spec :: "real \<Rightarrow> real" where
  "tier_percent_spec a =
     (if a < 50 then 0 else if a < 80 then 1.5 else if a < 100 then 2.0
      else if a < 110 then 4.0 else 8.0)"

section \<open>Properties\<close>

subsection \<open>What each function returns\<close>

lemma calculate_commission_standard_zero:
  "calculate_commission_standard sales_value 0 = Inr (PyFloat 0)"
  by (simp add: calculate_commission_standard_def)

lemma calculate_commission_standard_tuple:
  assumes "target_value \<noteq> 0"
  shows "calculate_commission_standard sales_value target_value =
         Inr (PyTuple3 (sales_value * (tier_percent_spec (sales_value / target_value * 100) / 100))
                       (tier_percent_spec (sales_value / target_value * 100))
                       (sales_value / target_value * 100))"
  using assms
  by (simp add: calculate_commission_standard_def py_div_def tier_percent_spec_def Let_def)

lemma commission_block_tuple:
  assumes "target_value \<noteq> 0"
  shows "commission_block vs vw target_value =
         Inr \<lparr> comm_standard = vs * (tier_percent_spec (vs / target_value * 100) / 100),
               rate_standard = tier_percent_spec (vs / target_value * 100),
               achievement = vs / target_value * 100,
               comm_waba = vw * 0.10,
               total_commission = vs * (tier_percent_spec (vs / target_value * 100) / 100) + vw * 0.10 \<rparr>"
  by (simp add: commission_block_def calculate_commission_standard_tuple [OF assms] unpack3_def
      calculate_commission_waba_def Let_def)

lemma commission_block_zero: "commission_block vs vw 0 = Inl TypeError"
  by (simp add: commission_block_def calculate_commission_standard_zero unpack3_def)

lemma val_standard_revenue_block [simp]:
  "val_standard (revenue_block df target_value) = val_of ''standard'' df"
  by (simp add: revenue_block_def Let_def)

lemma val_waba_revenue_block [simp]:
  "val_waba (revenue_block df target_value) = val_of ''waba'' df"
  by (simp add: revenue_block_def Let_def)

lemma val_trial_revenue_block [simp]:
  "val_trial (revenue_block df target_value) = val_of ''trial'' df"
  by (simp add: revenue_block_def Let_def)

lemma processing_empty: "processing [] target_value = Inr None"
  by (simp add: processing_def)

lemma processing_zero: "df \<noteq> [] \<Longrightarrow> processing df 0 = Inl TypeError"
  by (simp add: processing_def commission_block_zero Let_def)

lemma processing_tuple:
  assumes "df \<noteq> []" and "target_value \<noteq> 0"
  shows "processing df target_value =
         Inr (Some (revenue_block df target_value,
           \<lparr> comm_standard = val_of ''standard'' df *
                 (tier_percent_spec (val_of ''standard'' df / target_value * 100) / 100),
             rate_standard = tier_percent_spec (val_of ''standard'' df / target_value * 100),
             achievement = val_of ''standard'' df / target_value * 100,
             comm_waba = val_of ''waba'' df * 0.10,
             total_commission = val_of ''standard'' df *
                 (tier_percent_spec (val_of ''standard'' df / target_value * 100) / 100)
               + val_of ''waba'' df * 0.10 \<rparr>))"
  using assms by (simp add: processing_def commission_block_tuple Let_def)

lemma processing_returns_iff:
  "(\<exists>rv c. processing df target_value = Inr (Some (rv, c))) \<longleftrightarrow> df \<noteq> [] \<and> target_value \<noteq> 0"
proof (cases "df = []")
  case True
  then show ?thesis by (simp add: processing_empty)
next
  case False
  show ?thesis
  proof (cases "target_value = 0")
    case True
    with False show ?thesis by (simp add: processing_zero)
  next
    case False
    with \<open>df \<noteq> []\<close> show ?thesis by (simp add: processing_tuple)
  qed
qed

lemma tier_percent_spec_nonneg: "0 \<le> tier_percent_spec a"
  by (simp add: tier_percent_spec_def)

lemma tier_percent_spec_mono: "a \<le> b \<Longrightarrow> tier_percent_spec a \<le> tier_percent_spec b"
  by (simp add: tier_percent_spec_def)

lemma achievement_mono:
  fixes t :: real
  assumes "0 < t" and "r1 \<le> r2"
  shows "r1 / t * 100 \<le> r2 / t * 100"
  using assms by (simp add: divide_right_mono)

lemma val_of_Nil [simp]: "val_of name [] = 0"
  by (simp add: val_of_def)

lemma val_of_Cons [simp]:
  "val_of name (r # df) = (if str_lower (tipo r) = name then valor r + val_of name df else val_of name df)"
  by (simp add: val_of_def)

lemma known_total:
  "val_of ''standard'' df + val_of ''waba'' df + val_of ''trial'' df =
   sum_list (map valor (filter (\<lambda>r. str_lower (tipo r) \<in> {''standard'', ''waba'', ''trial''}) df))"
  by (induction df) auto

subsection \<open>A target of zero\<close>

text \<open>
  C1. With a target of 0 the engine should return an achievement of 0 and a zero commission
  result, without an error. On the data of the script itself and a target of 0,
  \<^verbatim>\<open>calculate_commission_standard\<close> returns the bare float 0.0 and not a tuple of three, so
  the unpacking at line 85 raises \<^verbatim>\<open>TypeError\<close> and no commission result is produced. The
  progress of the goal, computed at line 82, is 0 and no division by zero happens.
\<close>

theorem target_zero_unpack_fails:
  "calculate_commission_standard (val_of ''standard'' mock_data) 0 = Inr (PyFloat 0)
   \<and> processing mock_data 0 = Inl TypeError
   \<and> progress_percent (revenue_block mock_data 0) = 0"
  by (simp add: calculate_commission_standard_zero processing_zero mock_data_def revenue_block_def Let_def)

subsection \<open>A negative target\<close>

text \<open>
  C2, as stated: with a negative target \<^verbatim>\<open>calculate_commission_standard\<close> raises instead of
  returning a result. It returns: a tuple with a negative achievement for positive sales,
  and a negative commission at the top rate for negative sales.
\<close>

theorem negative_target_returns_counterexample:
  "calculate_commission_standard 60000 (- 50000) = Inr (PyTuple3 0 0 (- 120))
   \<and> calculate_commission_standard (- 60000) (- 50000) = Inr (PyTuple3 (- 4800) 8 120)"
  by (simp add: calculate_commission_standard_def py_div_def Let_def)

text \<open>
  C2, amended: with a negative target \<^verbatim>\<open>calculate_commission_standard\<close> raises nothing and
  returns the tuple of the commission, the rate in percent and the achievement
  \<open>sales_value / target_value \<times> 100\<close>, the rate being the one of the tier table at that
  achievement; for non-negative sales the achievement is at most 0, and the rate and the
  commission are 0.
\<close>

theorem negative_target_returns:
  assumes "target_value < 0" and "a = sales_value / target_value * 100"
  shows "calculate_commission_standard sales_value target_value =
           Inr (PyTuple3 (sales_value * (tier_percent_spec a / 100)) (tier_percent_spec a) a)
         \<and> (0 \<le> sales_value \<longrightarrow> a \<le> 0 \<and>
              calculate_commission_standard sales_value target_value = Inr (PyTuple3 0 0 a))"
proof -
  from assms(1) have nz: "target_value \<noteq> 0" by simp
  have eq: "calculate_commission_standard sales_value target_value =
           Inr (PyTuple3 (sales_value * (tier_percent_spec a / 100)) (tier_percent_spec a) a)"
    unfolding assms(2) by (rule calculate_commission_standard_tuple [OF nz])
  have "a \<le> 0" if "0 \<le> sales_value"
  proof -
    from that assms(1) have "sales_value / target_value \<le> 0"
      by (simp add: divide_nonneg_neg)
    then have "sales_value / target_value * 100 \<le> 0 * 100"
      by (rule mult_right_mono) simp
    then show ?thesis unfolding assms(2) by simp
  qed
  moreover have "tier_percent_spec a = 0" if "a \<le> 0"
    using that by (simp add: tier_percent_spec_def)
  ultimately show ?thesis using eq by simp
qed

theorem negative_target_returns_witness:
  "(- 50000 :: real) < 0 \<and> (- 120 :: real) = 60000 / (- 50000) * 100 \<and> (0::real) \<le> 60000
   \<and> calculate_commission_standard 60000 (- 50000) = Inr (PyTuple3 0 0 (- 120))"
  using negative_target_returns [of "- 50000" "- 120" 60000]
  by (simp add: tier_percent_spec_def)

subsection \<open>The tier table\<close>

text \<open>
  C3. The tier lookup is closed-open and exhaustive: for every achievement \<open>a \<ge> 0\<close> the
  rate returned, in percent, is 0 below 50, 1.5 on \<open>[50,80)\<close>, 2.0 on \<open>[80,100)\<close>, 4.0 on
  \<open>[100,110)\<close> and 8.0 from 110 on, and the commission is the sales value times that rate.
  The witness evaluates the lower end of every band, 80 and 110 among them.
\<close>

theorem tier_lookup_closed_open:
  assumes "target_value \<noteq> 0" and "a = sales_value / target_value * 100" and "0 \<le> a"
  shows "\<exists>r. calculate_commission_standard sales_value target_value =
               Inr (PyTuple3 (sales_value * (r / 100)) r a)
             \<and> (a < 50 \<longrightarrow> r = 0)
             \<and> (50 \<le> a \<and> a < 80 \<longrightarrow> r = 1.5)
             \<and> (80 \<le> a \<and> a < 100 \<longrightarrow> r = 2.0)
             \<and> (100 \<le> a \<and> a < 110 \<longrightarrow> r = 4.0)
             \<and> (110 \<le> a \<longrightarrow> r = 8.0)"
proof (intro exI conjI)
  show "calculate_commission_standard sales_value target_value =
        Inr (PyTuple3 (sales_value * (tier_percent_spec a / 100)) (tier_percent_spec a) a)"
    unfolding assms(2) by (rule calculate_commission_standard_tuple [OF assms(1)])
qed (simp_all add: tier_percent_spec_def)

theorem tier_lookup_closed_open_witness:
  "(100::real) \<noteq> 0 \<and> (0::real) \<le> 80 \<and> (0::real) \<le> 110
   \<and> calculate_commission_standard 34 100 = Inr (PyTuple3 0 0 34)
   \<and> calculate_commission_standard 50 100 = Inr (PyTuple3 0.75 1.5 50)
   \<and> calculate_commission_standard 80 100 = Inr (PyTuple3 1.6 2.0 80)
   \<and> calculate_commission_standard 100 100 = Inr (PyTuple3 4 4.0 100)
   \<and> calculate_commission_standard 110 100 = Inr (PyTuple3 8.8 8.0 110)"
  using tier_lookup_closed_open [of 100 34 34] tier_lookup_closed_open [of 100 50 50]
    tier_lookup_closed_open [of 100 80 80] tier_lookup_closed_open [of 100 100 100]
    tier_lookup_closed_open [of 100 110 110]
  by auto

subsection \<open>The Standard commission\<close>

text \<open>
  C4. For a non-empty data frame and a target above 0, the Standard commission comes from
  the Standard revenue alone: the achievement is the Standard revenue over the target
  times 100, the rate is the tier rate at that achievement and the commission is the
  Standard revenue times the rate. The blended progress of the goal, which also counts
  WABA and Trial revenue, is a different quantity and plays no part: any other data frame
  with the same Standard revenue gets the same achievement, rate and commission.
\<close>

theorem standard_commission_from_standard_revenue:
  assumes "df \<noteq> []" and "0 < target_value"
    and "vs = val_of ''standard'' df" and "a = vs / target_value * 100"
  shows "\<exists>rv c. processing df target_value = Inr (Some (rv, c))
           \<and> achievement c = a
           \<and> rate_standard c = tier_percent_spec a
           \<and> comm_standard c = vs * (tier_percent_spec a / 100)
           \<and> progress_percent rv =
               (vs + val_of ''waba'' df + val_of ''trial'' df) / target_value * 100
           \<and> (\<forall>df'. df' \<noteq> [] \<and> val_of ''standard'' df' = vs \<longrightarrow>
                 (\<exists>rv' c'. processing df' target_value = Inr (Some (rv', c'))
                    \<and> achievement c' = achievement c
                    \<and> rate_standard c' = rate_standard c
                    \<and> comm_standard c' = comm_standard c))"
proof -
  from assms(2) have nz: "target_value \<noteq> 0" by simp
  have pp: "progress_percent (revenue_block df target_value) =
        (vs + val_of ''waba'' df + val_of ''trial'' df) / target_value * 100"
    using assms(2) by (simp add: revenue_block_def Let_def assms(3))
  show ?thesis
    unfolding assms(3,4)
    using pp nz assms(1) by (simp add: processing_tuple assms(3))
qed

theorem standard_commission_from_standard_revenue_witness:
  "[\<lparr>tipo = ''Standard'', valor = 45000\<rparr>, \<lparr>tipo = ''WABA'', valor = 3000\<rparr>] \<noteq> []
   \<and> (0::real) < 50000
   \<and> (\<exists>rv c. processing [\<lparr>tipo = ''Standard'', valor = 45000\<rparr>, \<lparr>tipo = ''WABA'', valor = 3000\<rparr>] 50000
                = Inr (Some (rv, c))
         \<and> achievement c = 90 \<and> rate_standard c = 2 \<and> comm_standard c = 900
         \<and> progress_percent rv = 96)"
  using standard_commission_from_standard_revenue
    [of "[\<lparr>tipo = ''Standard'', valor = 45000\<rparr>, \<lparr>tipo = ''WABA'', valor = 3000\<rparr>]" 50000 45000 90]
  by (auto simp add: str_lower_def char_lower_def tier_percent_spec_def)

subsection \<open>A concrete run\<close>

text \<open>
  C5. On the records Standard 12000, Standard 5000, WABA 3000 and Trial 1000 with a
  target of 50000, the Standard revenue is 17000, the achievement 34 percent, the rate 0,
  the Standard commission 0, the WABA commission 300, the total revenue 21000 and the
  total commission 300.
\<close>

theorem concrete_scenario:
  "processing [\<lparr>tipo = ''Standard'', valor = 12000\<rparr>, \<lparr>tipo = ''Standard'', valor = 5000\<rparr>,
               \<lparr>tipo = ''WABA'', valor = 3000\<rparr>, \<lparr>tipo = ''Trial'', valor = 1000\<rparr>] 50000 =
   Inr (Some (\<lparr>val_standard = 17000, val_waba = 3000, val_trial = 1000,
                total_revenue = 21000, progress_percent = 42\<rparr>,
              \<lparr>comm_standard = 0, rate_standard = 0, achievement = 34,
                comm_waba = 300, total_commission = 300\<rparr>))"
  by (simp add: processing_def revenue_block_def commission_block_def val_of_def
      str_lower_def char_lower_def calculate_commission_standard_def py_div_def unpack3_def
      calculate_commission_waba_def Let_def)

subsection \<open>The WABA commission\<close>

text \<open>
  C6. The WABA commission is the WABA revenue times 0.10: the function takes the revenue
  alone, and in every run that produces a result the WABA commission is the tenth of the
  WABA revenue of the data frame, whatever the target and the achievement.
\<close>

theorem waba_flat_rate:
  "calculate_commission_waba wv = wv * 0.10
   \<and> (processing df target_value = Inr (Some (rv, c)) \<longrightarrow>
        comm_waba c = val_of ''waba'' df * 0.10
        \<and> comm_waba c = calculate_commission_waba (val_waba rv))"
proof (intro conjI impI)
  show "calculate_commission_waba wv = wv * 0.10"
    by (simp add: calculate_commission_waba_def)
next
  assume p: "processing df target_value = Inr (Some (rv, c))"
  then have "df \<noteq> [] \<and> target_value \<noteq> 0"
    using processing_returns_iff [of df target_value] by blast
  then have "processing df target_value = Inr (Some (revenue_block df target_value,
           \<lparr> comm_standard = val_of ''standard'' df *
                 (tier_percent_spec (val_of ''standard'' df / target_value * 100) / 100),
             rate_standard = tier_percent_spec (val_of ''standard'' df / target_value * 100),
             achievement = val_of ''standard'' df / target_value * 100,
             comm_waba = val_of ''waba'' df * 0.10,
             total_commission = val_of ''standard'' df *
                 (tier_percent_spec (val_of ''standard'' df / target_value * 100) / 100)
               + val_of ''waba'' df * 0.10 \<rparr>))"
    by (simp add: processing_tuple)
  with p have rv: "rv = revenue_block df target_value" and cw: "comm_waba c = val_of ''waba'' df * 0.10"
    by auto
  show "comm_waba c = val_of ''waba'' df * 0.10" by (rule cw)
  show "comm_waba c = calculate_commission_waba (val_waba rv)"
    by (simp add: cw rv calculate_commission_waba_def)
qed

theorem waba_flat_rate_witness:
  "processing [\<lparr>tipo = ''waba'', valor = 3000\<rparr>] 50000 =
     Inr (Some (\<lparr>val_standard = 0, val_waba = 3000, val_trial = 0, total_revenue = 3000,
                  progress_percent = 6\<rparr>,
                \<lparr>comm_standard = 0, rate_standard = 0, achievement = 0, comm_waba = 300,
                  total_commission = 300\<rparr>))
   \<and> val_of ''waba'' [\<lparr>tipo = ''waba'', valor = 3000\<rparr>] * 0.10 = 300
   \<and> calculate_commission_waba 3000 = 300"
  using waba_flat_rate [of 3000 "[\<lparr>tipo = ''waba'', valor = 3000\<rparr>]" 50000
      "\<lparr>val_standard = 0, val_waba = 3000, val_trial = 0, total_revenue = 3000,
        progress_percent = 6\<rparr>"
      "\<lparr>comm_standard = 0, rate_standard = 0, achievement = 0, comm_waba = 300,
        total_commission = 300\<rparr>"]
  by (simp add: processing_tuple revenue_block_def Let_def str_lower_def char_lower_def
      tier_percent_spec_def)

subsection \<open>The total commission\<close>

text \<open>
  Where line 87 is reached: in every run that produces a result, the total commission is
  the Standard commission plus the WABA commission, and Trial revenue contributes nothing,
  since any data frame with the same Standard and WABA revenue, whatever its Trial
  records, gets the very same commissions. A run produces a result exactly when the data
  frame is not empty and the target is not 0 (\<open>processing_returns_iff\<close>).
\<close>

theorem total_commission_sum_no_trial:
  assumes "processing df target_value = Inr (Some (rv, c))"
  shows "total_commission c = comm_standard c + comm_waba c
         \<and> (\<forall>df'. df' \<noteq> [] \<and> val_of ''standard'' df' = val_of ''standard'' df
                    \<and> val_of ''waba'' df' = val_of ''waba'' df \<longrightarrow>
               processing df' target_value = Inr (Some (revenue_block df' target_value, c)))"
proof -
  from assms have ne: "df \<noteq> []" and nz: "target_value \<noteq> 0"
    using processing_returns_iff [of df target_value] by blast+
  from assms processing_tuple [OF ne nz]
  have c: "c = \<lparr> comm_standard = val_of ''standard'' df *
                 (tier_percent_spec (val_of ''standard'' df / target_value * 100) / 100),
             rate_standard = tier_percent_spec (val_of ''standard'' df / target_value * 100),
             achievement = val_of ''standard'' df / target_value * 100,
             comm_waba = val_of ''waba'' df * 0.10,
             total_commission = val_of ''standard'' df *
                 (tier_percent_spec (val_of ''standard'' df / target_value * 100) / 100)
               + val_of ''waba'' df * 0.10 \<rparr>"
    by simp
  have "total_commission c = comm_standard c + comm_waba c"
    by (simp add: c)
  moreover have "processing df' target_value = Inr (Some (revenue_block df' target_value, c))"
    if "df' \<noteq> []" and "val_of ''standard'' df' = val_of ''standard'' df"
      and "val_of ''waba'' df' = val_of ''waba'' df" for df'
    using that nz by (simp add: processing_tuple c)
  ultimately show ?thesis by blast
qed

theorem total_commission_sum_no_trial_witness:
  "processing [\<lparr>tipo = ''Standard'', valor = 60000\<rparr>, \<lparr>tipo = ''WABA'', valor = 3000\<rparr>,
               \<lparr>tipo = ''Trial'', valor = 1000\<rparr>] 50000 =
     Inr (Some (\<lparr>val_standard = 60000, val_waba = 3000, val_trial = 1000,
                  total_revenue = 64000, progress_percent = 128\<rparr>,
                \<lparr>comm_standard = 4800, rate_standard = 8, achievement = 120,
                  comm_waba = 300, total_commission = 5100\<rparr>))
   \<and> (5100 :: real) = 4800 + 300
   \<and> processing [\<lparr>tipo = ''Trial'', valor = 999999\<rparr>, \<lparr>tipo = ''Standard'', valor = 60000\<rparr>,
                 \<lparr>tipo = ''WABA'', valor = 3000\<rparr>] 50000 =
     Inr (Some (\<lparr>val_standard = 60000, val_waba = 3000, val_trial = 999999,
                  total_revenue = 1062999, progress_percent = 2125.998\<rparr>,
                \<lparr>comm_standard = 4800, rate_standard = 8, achievement = 120,
                  comm_waba = 300, total_commission = 5100\<rparr>))"
  using total_commission_sum_no_trial
    [of "[\<lparr>tipo = ''Standard'', valor = 60000\<rparr>, \<lparr>tipo = ''WABA'', valor = 3000\<rparr>,
          \<lparr>tipo = ''Trial'', valor = 1000\<rparr>]" 50000
      "\<lparr>val_standard = 60000, val_waba = 3000, val_trial = 1000,
        total_revenue = 64000, progress_percent = 128\<rparr>"
      "\<lparr>comm_standard = 4800, rate_standard = 8, achievement = 120,
        comm_waba = 300, total_commission = 5100\<rparr>"]
  by (simp add: processing_tuple revenue_block_def Let_def str_lower_def char_lower_def
      tier_percent_spec_def)

text \<open>
  C7. For every data set and target the total commission should be the Standard commission
  plus the WABA commission, with no share for Trial revenue. With a target of 0, which the
  target input allows, no total commission is produced at all: on the data of the script
  itself the unpacking at line 85 raises \<^verbatim>\<open>TypeError\<close> and line 87 is never reached.
  With a target of 50000 the same data give 375 + 800 = 1175.
\<close>

theorem total_commission_missing_at_zero_target:
  "commission_block (val_of ''standard'' mock_data) (val_of ''waba'' mock_data) 0 = Inl TypeError
   \<and> processing mock_data 0 = Inl TypeError
   \<and> processing mock_data 50000 =
       Inr (Some (\<lparr>val_standard = 25000, val_waba = 8000, val_trial = 1000,
                    total_revenue = 34000, progress_percent = 68\<rparr>,
                  \<lparr>comm_standard = 375, rate_standard = 1.5, achievement = 50,
                    comm_waba = 800, total_commission = 1175\<rparr>))"
  by (simp add: commission_block_zero processing_zero processing_tuple mock_data_def
      revenue_block_def Let_def str_lower_def char_lower_def tier_percent_spec_def)

subsection \<open>The total revenue\<close>

text \<open>
  C8. For every data frame the total revenue is the sum of the three totals by category,
  Standard, WABA and Trial; it is the sum of the values of the records of these three
  categories.
\<close>

theorem total_revenue_is_sum:
  "total_revenue (revenue_block df target_value) =
     val_standard (revenue_block df target_value) + val_waba (revenue_block df target_value)
     + val_trial (revenue_block df target_value)
   \<and> total_revenue (revenue_block df target_value) =
     val_of ''standard'' df + val_of ''waba'' df + val_of ''trial'' df
   \<and> total_revenue (revenue_block df target_value) =
     sum_list (map valor
       (filter (\<lambda>r. str_lower (tipo r) = ''standard'' \<or> str_lower (tipo r) = ''waba''
                     \<or> str_lower (tipo r) = ''trial'') df))"
proof -
  have "total_revenue (revenue_block df target_value) =
     val_of ''standard'' df + val_of ''waba'' df + val_of ''trial'' df"
    by (simp add: revenue_block_def Let_def)
  moreover have "val_of ''standard'' df + val_of ''waba'' df + val_of ''trial'' df =
     sum_list (map valor
       (filter (\<lambda>r. str_lower (tipo r) = ''standard'' \<or> str_lower (tipo r) = ''waba''
                     \<or> str_lower (tipo r) = ''trial'') df))"
    using known_total [of df] by simp
  ultimately show ?thesis by simp
qed

subsection \<open>Monotonicity\<close>

text \<open>
  C9. For a fixed target above 0 the Standard achievement, the revenue over the target
  times 100, does not decrease when the non-negative Standard revenue grows.
\<close>

theorem achievement_monotone:
  assumes "0 < target_value" and "0 \<le> r1" and "r1 \<le> r2"
  shows "\<exists>c1 p1 a1 c2 p2 a2.
           calculate_commission_standard r1 target_value = Inr (PyTuple3 c1 p1 a1)
         \<and> calculate_commission_standard r2 target_value = Inr (PyTuple3 c2 p2 a2)
         \<and> a1 = r1 / target_value * 100 \<and> a2 = r2 / target_value * 100 \<and> a1 \<le> a2"
proof -
  from assms(1) have nz: "target_value \<noteq> 0" by simp
  have "r1 / target_value * 100 \<le> r2 / target_value * 100"
    by (rule achievement_mono [OF assms(1) assms(3)])
  then show ?thesis
    by (simp only: calculate_commission_standard_tuple [OF nz]) blast
qed

theorem achievement_monotone_witness:
  "(0::real) < 50000 \<and> (0::real) \<le> 17000 \<and> (17000::real) \<le> 45000
   \<and> calculate_commission_standard 17000 50000 = Inr (PyTuple3 0 0 34)
   \<and> calculate_commission_standard 45000 50000 = Inr (PyTuple3 900 2 90)
   \<and> (34::real) \<le> 90"
  using achievement_monotone [of 50000 17000 45000]
  by (simp add: calculate_commission_standard_tuple tier_percent_spec_def)

text \<open>
  C10. For a fixed target above 0 the Standard commission returned by
  \<^verbatim>\<open>calculate_commission_standard\<close> does not decrease when the non-negative sales value
  grows, across the tier boundaries too, and it is never negative. The witness crosses the
  boundary at an achievement of 80.
\<close>

theorem standard_commission_monotone:
  assumes "0 < target_value" and "0 \<le> s1" and "s1 \<le> s2"
  shows "\<exists>c1 p1 a1 c2 p2 a2.
           calculate_commission_standard s1 target_value = Inr (PyTuple3 c1 p1 a1)
         \<and> calculate_commission_standard s2 target_value = Inr (PyTuple3 c2 p2 a2)
         \<and> 0 \<le> c1 \<and> c1 \<le> c2 \<and> p1 \<le> p2"
proof -
  from assms(1) have nz: "target_value \<noteq> 0" by simp
  let ?a1 = "s1 / target_value * 100" and ?a2 = "s2 / target_value * 100"
  have a: "?a1 \<le> ?a2"
    by (rule achievement_mono [OF assms(1) assms(3)])
  have p: "tier_percent_spec ?a1 \<le> tier_percent_spec ?a2"
    by (rule tier_percent_spec_mono [OF a])
  have p0: "0 \<le> tier_percent_spec ?a1 / 100"
    using tier_percent_spec_nonneg [of ?a1] by simp
  from p have q: "tier_percent_spec ?a1 / 100 \<le> tier_percent_spec ?a2 / 100"
    by simp
  from assms(2,3) have s2: "0 \<le> s2" by simp
  have c0: "0 \<le> s1 * (tier_percent_spec ?a1 / 100)"
    using assms(2) p0 by (rule mult_nonneg_nonneg)
  have c: "s1 * (tier_percent_spec ?a1 / 100) \<le> s2 * (tier_percent_spec ?a2 / 100)"
    using assms(3) q s2 p0 by (rule mult_mono)
  show ?thesis
    using c0 c p by (simp only: calculate_commission_standard_tuple [OF nz]) blast
qed

theorem standard_commission_monotone_witness:
  "(0::real) < 50000 \<and> (0::real) \<le> 39999 \<and> (39999::real) \<le> 40000
   \<and> calculate_commission_standard 39999 50000 = Inr (PyTuple3 599.985 1.5 79.998)
   \<and> calculate_commission_standard 40000 50000 = Inr (PyTuple3 800 2 80)
   \<and> (0::real) \<le> 599.985 \<and> (599.985::real) \<le> 800"
  using standard_commission_monotone [of 50000 39999 40000]
  by (simp add: calculate_commission_standard_tuple tier_percent_spec_def)

end
